theory Spec2Isabelle
  imports Complex_Main "HOL-Library.Multiset"
begin

section \<open>The test estimator of \<open>app.py\<close>\<close>

text \<open>
  The program is one Streamlit script: a configuration section (the cost tables), the
  helper \<open>calculate_hours\<close>, and a loop over the steps that adds up the hours of the
  steps and substeps ticked in the view.

  Modelling decisions.
  \<^item> Hours are Python floats in the source. They are modelled as exact reals, and the
    decimal constants of the tables stand for their decimal values; rounding of the
    floating-point operations is not modelled.
  \<^item> The sample count is a Python integer (\<open>int\<close>).
  \<^item> A complexity is the string the select box returns.
  \<^item> A configuration dict is a record with one optional field for each key the script
    reads; \<open>None\<close> says that the dict has no such key. The value held under a key has
    the type the tables give it.
  \<^item> The only exception the script can raise on such dicts is the \<open>KeyError\<close> of a
    subscript on a missing key.
\<close>

subsection \<open>Configuration section\<close>

datatype error = KeyError

record config =
  base :: "real option"
  base_hours :: "real option"
  per_sample :: "real option"
  hours_per_sample :: "real option"
  multipliers :: "(string \<rightharpoonup> real) option"
  complexity_multipliers :: "(string \<rightharpoonup> real) option"
  substeps :: "string list option option"

text \<open>
  The field \<open>substeps\<close> has two layers: the outer \<open>None\<close> is a dict without the key
  \<open>"substeps"\<close>, \<open>Some None\<close> is the key holding Python's \<open>None\<close>, and
  \<open>Some (Some xs)\<close> is the key holding a list.
\<close>

definition SUBSTEP_CONFIG :: config where
  "SUBSTEP_CONFIG =
     \<lparr>base = None, base_hours = Some 0.0,
      per_sample = None, hours_per_sample = Some 0.5,
      multipliers = None,
      complexity_multipliers = Some [''Easy'' \<mapsto> 1.0, ''Medium'' \<mapsto> 1.25, ''High'' \<mapsto> 1.5],
      substeps = None\<rparr>"

definition EXECUTION_SUBSTEPS :: "string list" where
  "EXECUTION_SUBSTEPS =
     [''Thermal Cycling/Thermal Shock'', ''Vibration'', ''Fluid Susceptibility'',
      ''Salt Fog'', ''Seal Integrity'', ''Discontinuity Monitoring System'']"

definition ATP_SUBSTEPS :: "string list" where
  "ATP_SUBSTEPS =
     [''Visual Inspection'', ''Partial Discharge'', ''Insulation Resistance'',
      ''Dielectric Withstanding Voltage'', ''Electrical Bonding Resistance'',
      ''Tear Down Inspection'']"

definition DEFAULT_MULTS :: "string \<rightharpoonup> real" where
  "DEFAULT_MULTS = [''Easy'' \<mapsto> 1.0, ''Medium'' \<mapsto> 1.0, ''High'' \<mapsto> 1.0]"

definition COMPLEX_MULTS :: "string \<rightharpoonup> real" where
  "COMPLEX_MULTS = [''Easy'' \<mapsto> 1.0, ''Medium'' \<mapsto> 1.2, ''High'' \<mapsto> 1.5]"

text \<open>
  Every entry of \<open>PROJECT_STEPS\<close> is a dict literal with the four keys \<open>"base"\<close>,
  \<open>"per_sample"\<close>, \<open>"multipliers"\<close> and \<open>"substeps"\<close>; \<open>step_dict\<close> builds it.
\<close>

definition step_dict ::
  "real \<Rightarrow> real \<Rightarrow> (string \<rightharpoonup> real) \<Rightarrow> string list option \<Rightarrow> config" where
  "step_dict b p m s =
     \<lparr>base = Some b, base_hours = None,
      per_sample = Some p, hours_per_sample = None,
      multipliers = Some m, complexity_multipliers = None,
      substeps = Some s\<rparr>"

text \<open>
  A Python dict keeps the order of insertion and the loop follows it, so the table is
  the list of its items.
\<close>

definition PROJECT_STEPS :: "(string \<times> config) list" where
  "PROJECT_STEPS =
     [(''Conformity Delegation'', step_dict 2.0 0.0 DEFAULT_MULTS None),
      (''Creation of UUT'', step_dict 2.0 1.0 COMPLEX_MULTS None),
      (''Creation of Test Plan'', step_dict 4.0 0.0 COMPLEX_MULTS None),
      (''Test Facility Selection'', step_dict 2.0 0.0 DEFAULT_MULTS None),
      (''NDA'', step_dict 1.0 0.0 DEFAULT_MULTS None),
      (''Subcontract'', step_dict 2.0 0.0 DEFAULT_MULTS None),
      (''TRR 1'', step_dict 3.0 0.0 DEFAULT_MULTS None),
      (''UUT Conformity'', step_dict 1.0 0.5 DEFAULT_MULTS None),
      (''Pre-ATP'', step_dict 1.0 0.0 COMPLEX_MULTS (Some ATP_SUBSTEPS)),
      (''Test Set-up'', step_dict 4.0 0.0 COMPLEX_MULTS None),
      (''TRR 2'', step_dict 2.0 0.0 DEFAULT_MULTS None),
      (''Test Execution'', step_dict 2.0 0.0 COMPLEX_MULTS (Some EXECUTION_SUBSTEPS)),
      (''Post-ATP'', step_dict 1.0 0.0 COMPLEX_MULTS (Some ATP_SUBSTEPS)),
      (''Test Reporting'', step_dict 4.0 1.0 DEFAULT_MULTS None),
      (''Archiving'', step_dict 1.0 0.0 DEFAULT_MULTS None)]"

subsection \<open>Helper function\<close>

text \<open>\<open>dict_get (d k) v\<close> is Python's \<open>d.get(k, v)\<close> on the field of key \<open>k\<close>.\<close>

definition dict_get :: "'a option \<Rightarrow> 'a \<Rightarrow> 'a" where
  "dict_get field dflt = (case field of Some v \<Rightarrow> v | None \<Rightarrow> dflt)"

text \<open>
  \<open>calculate_hours\<close>, line by line. The subscript \<open>multipliers[complexity]\<close> raises
  \<open>KeyError\<close> when the table has no such key; nothing else in the function fails, and
  the function does not look at the sign of \<open>num_samples\<close>.
\<close>

definition calculate_hours :: "config \<Rightarrow> int \<Rightarrow> string \<Rightarrow> error + real" where
  "calculate_hours config num_samples complexity =
     (let base_v = dict_get (base config) (dict_get (base_hours config) 0);
          per_sample_v = dict_get (per_sample config) (dict_get (hours_per_sample config) 0);
          mults = dict_get (multipliers config)
                    (dict_get (complexity_multipliers config) DEFAULT_MULTS);
          raw_hours = base_v + per_sample_v * real_of_int num_samples
      in case mults complexity of
           None \<Rightarrow> Inl KeyError
         | Some m \<Rightarrow> Inr (raw_hours * m))"

subsection \<open>Main loop\<close>

text \<open>
  The widgets are Streamlit's; the script only reads what they return. The view is the
  record of these values: the sample count of the number input, the complexity of the
  select box, for each key of a checkbox whether it is ticked, and for each key of a
  multiselect the entries that are chosen in it.
\<close>

record view =
  num_samples :: int
  complexity :: string
  checkbox :: "string \<Rightarrow> bool"
  chosen :: "string \<Rightarrow> string set"

text \<open>The select box offers these three complexities.\<close>

definition COMPLEXITY_OPTIONS :: "string list" where
  "COMPLEXITY_OPTIONS = [''Easy'', ''Medium'', ''High'']"

text \<open>
  \<open>st.multiselect(label, options=..., key=...)\<close> returns the entries of \<open>options\<close>
  that are chosen: it never returns a name that is not among its options. The model
  lists them in the order of \<open>options\<close>; the loop below adds the same hours for every
  entry, so only their number matters.
\<close>

definition multiselect :: "string list \<Rightarrow> string set \<Rightarrow> string list" where
  "multiselect options picked = filter (\<lambda>s. s \<in> picked) options"

text \<open>
  The inner loop \<open>for sub in selected_subs\<close>. It updates the two variables
  \<open>total_hours\<close> and \<open>estimated_step_cost\<close>; the state is this pair.
\<close>

fun substep_loop :: "int \<Rightarrow> string \<Rightarrow> string list \<Rightarrow> real \<times> real \<Rightarrow> error + real \<times> real" where
  "substep_loop n c [] (total_hours, estimated_step_cost) =
     Inr (total_hours, estimated_step_cost)"
| "substep_loop n c (sub # selected_subs) (total_hours, estimated_step_cost) =
     (case calculate_hours SUBSTEP_CONFIG n c of
        Inl e \<Rightarrow> Inl e
      | Inr sub_cost \<Rightarrow>
          substep_loop n c selected_subs
            (total_hours + sub_cost, estimated_step_cost + sub_cost))"

text \<open>
  One pass of the outer loop, for the item \<open>(step_name, config)\<close>. The state is
  \<open>total_hours\<close> together with the captions written so far (step name and the hours
  shown beside it). \<open>calculate_hours\<close> is called for every step, ticked or not. A
  list is true in a condition when it is not empty; \<open>None\<close> is false.
\<close>

definition step_body ::
  "view \<Rightarrow> string \<times> config \<Rightarrow> real \<times> (string \<times> real) list
     \<Rightarrow> error + real \<times> (string \<times> real) list" where
  "step_body ui item st =
     (case item of (step_name, config) \<Rightarrow>
      case st of (total_hours, captions) \<Rightarrow>
      case calculate_hours config (num_samples ui) (complexity ui) of
        Inl e \<Rightarrow> Inl e
      | Inr estimated_step_cost \<Rightarrow>
          if checkbox ui step_name then
            (case substeps config of
               None \<Rightarrow> Inl KeyError
             | Some None \<Rightarrow>
                 Inr (total_hours + estimated_step_cost,
                      captions @ [(step_name, estimated_step_cost)])
             | Some (Some []) \<Rightarrow>
                 Inr (total_hours + estimated_step_cost,
                      captions @ [(step_name, estimated_step_cost)])
             | Some (Some (x # xs)) \<Rightarrow>
                 (case substep_loop (num_samples ui) (complexity ui)
                         (multiselect (x # xs) (chosen ui (step_name @ ''_sub'')))
                         (total_hours + estimated_step_cost, estimated_step_cost) of
                    Inl e \<Rightarrow> Inl e
                  | Inr (total_hours', estimated_step_cost') \<Rightarrow>
                      Inr (total_hours', captions @ [(step_name, estimated_step_cost')])))
          else Inr (total_hours, captions))"

fun steps_loop ::
  "view \<Rightarrow> (string \<times> config) list \<Rightarrow> real \<times> (string \<times> real) list
     \<Rightarrow> error + real \<times> (string \<times> real) list" where
  "steps_loop ui [] st = Inr st"
| "steps_loop ui (item # items) st =
     (case step_body ui item st of
        Inl e \<Rightarrow> Inl e
      | Inr st' \<Rightarrow> steps_loop ui items st')"

text \<open>
  The script over a table of steps: \<open>total_hours = 0.0\<close>, then the loop. \<open>run\<close> is
  the script as shipped, over \<open>PROJECT_STEPS\<close>; \<open>total_over\<close> and \<open>total_hours\<close> keep
  the value of \<open>total_hours\<close> after the loop.
\<close>

definition run_over ::
  "(string \<times> config) list \<Rightarrow> view \<Rightarrow> error + real \<times> (string \<times> real) list" where
  "run_over steps ui = steps_loop ui steps (0.0, [])"

definition total_over :: "(string \<times> config) list \<Rightarrow> view \<Rightarrow> error + real" where
  "total_over steps ui = map_sum id fst (run_over steps ui)"

definition run :: "view \<Rightarrow> error + real \<times> (string \<times> real) list" where
  "run ui = run_over PROJECT_STEPS ui"

definition total_hours :: "view \<Rightarrow> error + real" where
  "total_hours ui = total_over PROJECT_STEPS ui"

subsection \<open>Derived notions\<close>




text \<open>The hours that one pass of the loop adds to \<open>total_hours\<close>.\<close>

definition step_cost :: "view \<Rightarrow> string \<times> config \<Rightarrow> error + real" where
  "step_cost ui item = map_sum id fst (step_body ui item (0, []))"

section \<open>Properties of \<open>calculate_hours\<close>\<close>


lemma calculate_hours_step_dict:
  "calculate_hours (step_dict b p m s) n c =
     (case m c of None \<Rightarrow> Inl KeyError | Some k \<Rightarrow> Inr ((b + p * real_of_int n) * k))"
  by (simp add: calculate_hours_def step_dict_def dict_get_def)

lemma sub_cost_value:
  "calculate_hours SUBSTEP_CONFIG n c =
     (if c = ''High'' then Inr (0.5 * real_of_int n * 1.5)
      else if c = ''Medium'' then Inr (0.5 * real_of_int n * 1.25)
      else if c = ''Easy'' then Inr (0.5 * real_of_int n)
      else Inl KeyError)"
  by (simp add: calculate_hours_def SUBSTEP_CONFIG_def dict_get_def)










section \<open>Properties of the loop\<close>

subsection \<open>The loops as sums\<close>

lemma substep_loop_ok:
  "calculate_hours SUBSTEP_CONFIG n c = Inr s \<Longrightarrow>
   substep_loop n c xs (t, e) =
     Inr (t + real (length xs) * s, e + real (length xs) * s)"
  by (induction xs arbitrary: t e) (simp_all add: algebra_simps)

lemma step_body_shift:
  "step_body ui item (t, caps) =
     (case step_body ui item (0, []) of
        Inl err \<Rightarrow> Inl err
      | Inr (d, cs) \<Rightarrow> Inr (t + d, caps @ cs))"
proof -
  obtain step_name cfg where item: "item = (step_name, cfg)"
    by (cases item)
  have sh: "\<And>xs e. substep_loop (num_samples ui) (complexity ui) xs (t + e, e) =
     (case substep_loop (num_samples ui) (complexity ui) xs (0 + e, e) of
        Inl err \<Rightarrow> Inl err
      | Inr (d, e') \<Rightarrow> Inr (t + d, e'))"
  proof -
    fix xs e
    show "substep_loop (num_samples ui) (complexity ui) xs (t + e, e) =
     (case substep_loop (num_samples ui) (complexity ui) xs (0 + e, e) of
        Inl err \<Rightarrow> Inl err
      | Inr (d, e') \<Rightarrow> Inr (t + d, e'))"
      by (cases "calculate_hours SUBSTEP_CONFIG (num_samples ui) (complexity ui)")
         (cases xs; simp add: substep_loop_ok)+
  qed
  show ?thesis
    unfolding item step_body_def
    by (simp add: sh split: sum.splits option.splits list.splits prod.splits)
qed

lemma steps_loop_total:
  "map_sum id fst (steps_loop ui items (t, caps)) =
     (if \<forall>item \<in> set items. step_cost ui item \<noteq> Inl KeyError
      then Inr (t + sum_list (map (\<lambda>item. projr (step_cost ui item)) items))
      else Inl KeyError)"
proof (induction items arbitrary: t caps)
  case Nil
  show ?case by simp
next
  case (Cons item items)
  show ?case
  proof (cases "step_body ui item (0, [])")
    case (Inl err)
    have "step_body ui item (t, caps) = Inl err"
      by (subst step_body_shift) (simp add: Inl)
    moreover have "step_cost ui item = Inl KeyError"
      by (cases err) (simp add: step_cost_def Inl)
    ultimately show ?thesis
      by (cases err) simp
  next
    case (Inr st)
    obtain d cs where st: "st = (d, cs)"
      by (cases st)
    have sb: "step_body ui item (t, caps) = Inr (t + d, caps @ cs)"
      by (subst step_body_shift) (simp add: Inr st)
    have sc: "step_cost ui item = Inr d"
      by (simp add: step_cost_def Inr st)
    show ?thesis
      using Cons.IH [of "t + d" "caps @ cs"] by (simp add: sb sc add.assoc)
  qed
qed

lemma total_over_sum:
  "total_over steps ui =
     (if \<forall>item \<in> set steps. step_cost ui item \<noteq> Inl KeyError
      then Inr (sum_list (map (\<lambda>item. projr (step_cost ui item)) steps))
      else Inl KeyError)"
  unfolding total_over_def run_over_def by (simp add: steps_loop_total)

lemma step_body_no_substeps:
  assumes "checkbox ui name"
    and "substeps cfg = Some None \<or> substeps cfg = Some (Some [])"
  shows "step_body ui (name, cfg) (t, caps) =
     (case calculate_hours cfg (num_samples ui) (complexity ui) of
        Inl e \<Rightarrow> Inl e
      | Inr h \<Rightarrow> Inr (t + h, caps @ [(name, h)]))"
  using assms unfolding step_body_def by (auto split: sum.splits)

lemma step_body_substeps:
  assumes "checkbox ui name" and "substeps cfg = Some (Some opts)" and "opts \<noteq> []"
    and "calculate_hours cfg (num_samples ui) (complexity ui) = Inr h"
    and "calculate_hours SUBSTEP_CONFIG (num_samples ui) (complexity ui) = Inr sc"
  shows "step_body ui (name, cfg) (t, caps) =
     Inr (t + (h + real (length (multiselect opts (chosen ui (name @ ''_sub'')))) * sc),
          caps @ [(name, h + real (length (multiselect opts (chosen ui (name @ ''_sub'')))) * sc)])"
  using assms(3) unfolding step_body_def
  by (simp add: assms(1,2,4) substep_loop_ok [OF assms(5)] add.assoc split: list.splits)

lemma multiselect_restrict:
  "multiselect opts (picked \<inter> set opts) = multiselect opts picked"
  unfolding multiselect_def by (rule filter_cong) simp_all

lemma multiselect_mono:
  "A \<subseteq> B \<Longrightarrow> length (multiselect xs A) \<le> length (multiselect xs B)"
  unfolding multiselect_def by (induction xs) auto

subsection \<open>The shipped tables\<close>


lemma project_steps_shape:
  "(name, cfg) \<in> set PROJECT_STEPS \<Longrightarrow>
     \<exists>b p m s. cfg = step_dict b p m s \<and> 0 \<le> b \<and> 0 \<le> p \<and>
       (m = DEFAULT_MULTS \<or> m = COMPLEX_MULTS) \<and>
       (s = None \<or> s = Some ATP_SUBSTEPS \<or> s = Some EXECUTION_SUBSTEPS)"
  unfolding PROJECT_STEPS_def by fastforce

lemma mults_total:
  "c \<in> set COMPLEXITY_OPTIONS \<Longrightarrow> m = DEFAULT_MULTS \<or> m = COMPLEX_MULTS \<Longrightarrow>
     (case m c of None \<Rightarrow> False | Some k \<Rightarrow> 0 < k)"
  by (auto simp: COMPLEXITY_OPTIONS_def DEFAULT_MULTS_def COMPLEX_MULTS_def)

lemma sub_cost_ok:
  "c \<in> set COMPLEXITY_OPTIONS \<Longrightarrow>
     (case calculate_hours SUBSTEP_CONFIG n c of
        Inl e \<Rightarrow> False
      | Inr sc \<Rightarrow> 0 \<le> n \<longrightarrow> 0 \<le> sc)"
  by (auto simp: COMPLEXITY_OPTIONS_def sub_cost_value)

lemma step_cost_step_dict:
  assumes "m (complexity ui) = Some k"
    and "calculate_hours SUBSTEP_CONFIG (num_samples ui) (complexity ui) = Inr sc"
  shows "step_cost ui (name, step_dict b p m s) =
     Inr (if checkbox ui name
          then (b + p * real_of_int (num_samples ui)) * k +
               real (length (multiselect (case s of None \<Rightarrow> [] | Some xs \<Rightarrow> xs)
                               (chosen ui (name @ ''_sub'')))) * sc
          else 0)"
proof -
  have ch: "calculate_hours (step_dict b p m s) (num_samples ui) (complexity ui) =
      Inr ((b + p * real_of_int (num_samples ui)) * k)"
    by (simp add: calculate_hours_step_dict assms)
  have ss: "substeps (step_dict b p m s) = Some s"
    by (simp add: step_dict_def)
  show ?thesis
    unfolding step_cost_def step_body_def
    by (simp add: ch ss substep_loop_ok [OF assms(2)] multiselect_def
          split: option.splits list.splits)
qed

text \<open>What a shipped step adds, for a complexity of the select box.\<close>

lemma shipped_step_cost:
  assumes "item \<in> set PROJECT_STEPS" and "complexity ui \<in> set COMPLEXITY_OPTIONS"
  shows "\<exists>name b p m s k sc.
           item = (name, step_dict b p m s) \<and> 0 \<le> b \<and> 0 \<le> p \<and> 0 < k \<and>
           m (complexity ui) = Some k \<and>
           calculate_hours SUBSTEP_CONFIG (num_samples ui) (complexity ui) = Inr sc \<and>
           (0 \<le> num_samples ui \<longrightarrow> 0 \<le> sc) \<and>
           step_cost ui item =
             Inr (if checkbox ui name
                  then (b + p * real_of_int (num_samples ui)) * k +
                       real (length (multiselect (case s of None \<Rightarrow> [] | Some xs \<Rightarrow> xs)
                               (chosen ui (name @ ''_sub'')))) * sc
                  else 0)"
proof -
  obtain name cfg where item: "item = (name, cfg)"
    by (cases item)
  from assms(1) item obtain b p m s
    where cfg: "cfg = step_dict b p m s" and b: "0 \<le> b" and p: "0 \<le> p"
      and m: "m = DEFAULT_MULTS \<or> m = COMPLEX_MULTS"
    using project_steps_shape by blast
  from mults_total [OF assms(2) m] obtain k
    where k: "m (complexity ui) = Some k" "0 < k"
    by (cases "m (complexity ui)") simp_all
  from sub_cost_ok [OF assms(2), of "num_samples ui"] obtain sc
    where sc: "calculate_hours SUBSTEP_CONFIG (num_samples ui) (complexity ui) = Inr sc"
      "0 \<le> num_samples ui \<longrightarrow> 0 \<le> sc"
    by (cases "calculate_hours SUBSTEP_CONFIG (num_samples ui) (complexity ui)") simp_all
  show ?thesis
    using item cfg b p k sc step_cost_step_dict [of m ui k sc name b p s] by blast
qed

lemma shipped_step_ok:
  assumes "item \<in> set PROJECT_STEPS" and "complexity ui \<in> set COMPLEXITY_OPTIONS"
  shows "step_cost ui item \<noteq> Inl KeyError"
  using shipped_step_cost [OF assms] by auto

lemma shipped_multipliers:
  "(name, config) \<in> set PROJECT_STEPS \<Longrightarrow> c \<in> set COMPLEXITY_OPTIONS \<Longrightarrow>
     (\<exists>m. multipliers config = Some m \<and> c \<in> dom m) \<and>
     calculate_hours config n c \<noteq> Inl KeyError"
proof -
  assume item: "(name, config) \<in> set PROJECT_STEPS" and c: "c \<in> set COMPLEXITY_OPTIONS"
  from project_steps_shape [OF item] obtain b p m s
    where config: "config = step_dict b p m s"
      and m: "m = DEFAULT_MULTS \<or> m = COMPLEX_MULTS"
    by blast
  from mults_total [OF c m] obtain k where k: "m c = Some k"
    by (cases "m c") simp_all
  have "multipliers config = Some m"
    by (simp add: config step_dict_def)
  moreover have "calculate_hours config n c \<noteq> Inl KeyError"
    by (simp add: config calculate_hours_step_dict k)
  ultimately show ?thesis
    using k by blast
qed

lemma substep_multipliers:
  assumes "c \<in> set COMPLEXITY_OPTIONS"
  shows "multipliers SUBSTEP_CONFIG = None \<and>
     (\<exists>m. complexity_multipliers SUBSTEP_CONFIG = Some m \<and> c \<in> dom m) \<and>
     calculate_hours SUBSTEP_CONFIG n c \<noteq> Inl KeyError"
proof -
  have "complexity_multipliers SUBSTEP_CONFIG =
      Some [''Easy'' \<mapsto> 1.0, ''Medium'' \<mapsto> 1.25, ''High'' \<mapsto> 1.5]"
    by (simp add: SUBSTEP_CONFIG_def)
  moreover have "c \<in> dom [''Easy'' \<mapsto> 1.0::real, ''Medium'' \<mapsto> 1.25, ''High'' \<mapsto> 1.5]"
    using assms by (auto simp: COMPLEXITY_OPTIONS_def)
  moreover have "multipliers SUBSTEP_CONFIG = None"
    by (simp add: SUBSTEP_CONFIG_def)
  moreover have "calculate_hours SUBSTEP_CONFIG n c \<noteq> Inl KeyError"
    using assms by (auto simp: COMPLEXITY_OPTIONS_def sub_cost_value)
  ultimately show ?thesis
    by blast
qed

lemma step_cost_mono:
  assumes item: "item \<in> set PROJECT_STEPS"
    and c: "complexity ui \<in> set COMPLEXITY_OPTIONS" and n: "1 \<le> num_samples ui"
    and same: "num_samples ui' = num_samples ui" "complexity ui' = complexity ui"
    and cb: "\<forall>k. checkbox ui k \<longrightarrow> checkbox ui' k"
    and ch: "\<forall>k. chosen ui k \<subseteq> chosen ui' k"
  shows "projr (step_cost ui item) \<le> projr (step_cost ui' item)"
proof -
  have c': "complexity ui' \<in> set COMPLEXITY_OPTIONS"
    using c same by simp
  from shipped_step_cost [OF item c] obtain name b p m s k sc where
    item_eq: "item = (name, step_dict b p m s)" and b: "0 \<le> b" and p: "0 \<le> p"
    and k: "0 < k" "m (complexity ui) = Some k"
    and sc: "calculate_hours SUBSTEP_CONFIG (num_samples ui) (complexity ui) = Inr sc"
      "0 \<le> sc"
    using n by auto
  let ?opts = "case s of None \<Rightarrow> [] | Some xs \<Rightarrow> xs"
  let ?own = "(b + p * real_of_int (num_samples ui)) * k"
  have cost: "step_cost ui item =
      Inr (if checkbox ui name
           then ?own + real (length (multiselect ?opts (chosen ui (name @ ''_sub'')))) * sc
           else 0)"
    using step_cost_step_dict [of m ui k sc name b p s] k(2) sc(1)
    by (simp add: item_eq)
  have cost': "step_cost ui' item =
      Inr (if checkbox ui' name
           then ?own + real (length (multiselect ?opts (chosen ui' (name @ ''_sub'')))) * sc
           else 0)"
    using step_cost_step_dict [of m ui' k sc name b p s] k(2) sc(1) same
    by (simp add: item_eq)
  have own: "0 \<le> ?own"
    using b p k(1) n by simp
  have len: "length (multiselect ?opts (chosen ui (name @ ''_sub'')))
           \<le> length (multiselect ?opts (chosen ui' (name @ ''_sub'')))"
    using ch by (simp add: multiselect_mono)
  then have subs: "real (length (multiselect ?opts (chosen ui (name @ ''_sub'')))) * sc
           \<le> real (length (multiselect ?opts (chosen ui' (name @ ''_sub'')))) * sc"
    using sc(2) by (simp add: mult_right_mono)
  have "0 \<le> real (length (multiselect ?opts (chosen ui' (name @ ''_sub'')))) * sc"
    using sc(2) by simp
  with own subs cb show ?thesis
    by (simp add: cost cost')
qed

lemma step_cost_nonneg:
  assumes "item \<in> set PROJECT_STEPS"
    and "complexity ui \<in> set COMPLEXITY_OPTIONS" and "1 \<le> num_samples ui"
  shows "0 \<le> projr (step_cost ui item)"
proof -
  from shipped_step_cost [OF assms(1,2)] obtain name b p m s k sc where
    b: "0 \<le> b" and p: "0 \<le> p" and k: "0 < k" and sc: "0 \<le> sc"
    and cost: "step_cost ui item =
      Inr (if checkbox ui name
           then (b + p * real_of_int (num_samples ui)) * k +
                real (length (multiselect (case s of None \<Rightarrow> [] | Some xs \<Rightarrow> xs)
                        (chosen ui (name @ ''_sub'')))) * sc
           else 0)"
    using assms(3) by auto
  have "0 \<le> (b + p * real_of_int (num_samples ui)) * k"
    using b p k assms(3) by simp
  moreover have "0 \<le> real (length (multiselect (case s of None \<Rightarrow> [] | Some xs \<Rightarrow> xs)
                        (chosen ui (name @ ''_sub'')))) * sc"
    using sc by simp
  ultimately show ?thesis
    by (simp add: cost)
qed

subsection \<open>The claims about steps and totals\<close>

text \<open>
  Claim C1, as the spec states it: for "Test Execution" with four samples, complexity
  Medium and two of its six substeps chosen, a chosen substep costs 2.0 hours and the
  step 6.4 hours in all. The spec takes the multipliers of the substep formula to be
  1.0 throughout; \<open>SUBSTEP_CONFIG\<close> has 1.25 for Medium, so a substep costs 2.5 hours
  and the step 7.4 hours.
\<close>

theorem test_execution_scenario_counterexample:
  "calculate_hours SUBSTEP_CONFIG 4 ''Medium'' = Inr 2.5 \<and>
   calculate_hours SUBSTEP_CONFIG 4 ''Medium'' \<noteq> Inr 2.0 \<and>
   step_cost
     \<lparr>num_samples = 4, complexity = ''Medium'',
      checkbox = (\<lambda>key. key = ''Test Execution''),
      chosen = (\<lambda>key. {''Vibration'', ''Salt Fog''})\<rparr>
     (''Test Execution'', step_dict 2.0 0.0 COMPLEX_MULTS (Some EXECUTION_SUBSTEPS)) = Inr 7.4 \<and>
   step_cost
     \<lparr>num_samples = 4, complexity = ''Medium'',
      checkbox = (\<lambda>key. key = ''Test Execution''),
      chosen = (\<lambda>key. {''Vibration'', ''Salt Fog''})\<rparr>
     (''Test Execution'', step_dict 2.0 0.0 COMPLEX_MULTS (Some EXECUTION_SUBSTEPS)) \<noteq> Inr 6.4"
proof -
  have sub: "calculate_hours SUBSTEP_CONFIG 4 ''Medium'' = Inr 2.5"
    by (simp add: sub_cost_value)
  have m: "COMPLEX_MULTS ''Medium'' = Some 1.2"
    by (simp add: COMPLEX_MULTS_def)
  have "step_cost
     \<lparr>num_samples = 4, complexity = ''Medium'',
      checkbox = (\<lambda>key. key = ''Test Execution''),
      chosen = (\<lambda>key. {''Vibration'', ''Salt Fog''})\<rparr>
     (''Test Execution'', step_dict 2.0 0.0 COMPLEX_MULTS (Some EXECUTION_SUBSTEPS)) = Inr 7.4"
    using step_cost_step_dict [of COMPLEX_MULTS
        "\<lparr>num_samples = 4, complexity = ''Medium'',
          checkbox = (\<lambda>key. key = ''Test Execution''),
          chosen = (\<lambda>key. {''Vibration'', ''Salt Fog''})\<rparr>" "1.2" "2.5"
        "''Test Execution''" "2.0" "0.0" "Some EXECUTION_SUBSTEPS"] sub m
    by (simp add: multiselect_def EXECUTION_SUBSTEPS_def)
  with sub show ?thesis
    by simp
qed

text \<open>
  Claim C1, amended. For "Test Execution" (fixed hours 2.0, nothing for each sample,
  \<open>COMPLEX_MULTS\<close>, six substeps) with four samples, complexity Medium and exactly two
  of its substeps chosen, the step's own cost is 2.4 hours, \<open>SUBSTEP_CONFIG\<close> gives
  every chosen substep 2.5 hours, and the pass of the loop adds 7.4 hours to the total
  and shows 7.4 hours beside the step.
\<close>

theorem test_execution_scenario:
  assumes "(''Test Execution'', config) \<in> set PROJECT_STEPS"
    and "num_samples ui = 4" and "complexity ui = ''Medium''"
    and "checkbox ui ''Test Execution''"
    and "card (chosen ui ''Test Execution_sub'' \<inter> set EXECUTION_SUBSTEPS) = 2"
  shows "substeps config = Some (Some EXECUTION_SUBSTEPS) \<and>
         length EXECUTION_SUBSTEPS = 6 \<and>
         calculate_hours config 4 ''Medium'' = Inr 2.4 \<and>
         calculate_hours SUBSTEP_CONFIG 4 ''Medium'' = Inr 2.5 \<and>
         step_body ui (''Test Execution'', config) (t, caps) =
           Inr (t + 7.4, caps @ [(''Test Execution'', 7.4)])"
proof -
  have config: "config = step_dict 2.0 0.0 COMPLEX_MULTS (Some EXECUTION_SUBSTEPS)"
    using assms(1) by (simp add: PROJECT_STEPS_def)
  have subs: "substeps config = Some (Some EXECUTION_SUBSTEPS)"
    by (simp add: config step_dict_def)
  have own: "calculate_hours config 4 ''Medium'' = Inr 2.4"
    by (simp add: config calculate_hours_step_dict COMPLEX_MULTS_def)
  have sub: "calculate_hours SUBSTEP_CONFIG 4 ''Medium'' = Inr 2.5"
    by (simp add: sub_cost_value)
  have "distinct EXECUTION_SUBSTEPS"
    by (simp add: EXECUTION_SUBSTEPS_def)
  then have "length (multiselect EXECUTION_SUBSTEPS (chosen ui ''Test Execution_sub'')) =
      card (chosen ui ''Test Execution_sub'' \<inter> set EXECUTION_SUBSTEPS)"
    unfolding multiselect_def by (simp add: distinct_length_filter)
  then have two: "length (multiselect EXECUTION_SUBSTEPS (chosen ui (''Test Execution'' @ ''_sub''))) = 2"
    using assms(5) by simp
  have ne: "EXECUTION_SUBSTEPS \<noteq> []"
    by (simp add: EXECUTION_SUBSTEPS_def)
  have "step_body ui (''Test Execution'', config) (t, caps) =
           Inr (t + 7.4, caps @ [(''Test Execution'', 7.4)])"
    using step_body_substeps [OF assms(4) subs ne, of "2.4" "2.5" t caps]
      own sub assms(2,3) two by simp
  moreover have "length EXECUTION_SUBSTEPS = 6"
    by (simp add: EXECUTION_SUBSTEPS_def)
  ultimately show ?thesis
    using subs own sub by simp
qed

theorem test_execution_scenario_witness:
  "(''Test Execution'', step_dict 2.0 0.0 COMPLEX_MULTS (Some EXECUTION_SUBSTEPS))
      \<in> set PROJECT_STEPS \<and>
   card ({''Vibration'', ''Salt Fog''} \<inter> set EXECUTION_SUBSTEPS) = 2 \<and>
   step_body
     \<lparr>num_samples = 4, complexity = ''Medium'',
      checkbox = (\<lambda>key. key = ''Test Execution''),
      chosen = (\<lambda>key. {''Vibration'', ''Salt Fog''})\<rparr>
     (''Test Execution'', step_dict 2.0 0.0 COMPLEX_MULTS (Some EXECUTION_SUBSTEPS)) (0, [])
   = Inr (7.4, [(''Test Execution'', 7.4)])"
proof -
  have mem: "(''Test Execution'', step_dict 2.0 0.0 COMPLEX_MULTS (Some EXECUTION_SUBSTEPS))
      \<in> set PROJECT_STEPS"
    by (simp add: PROJECT_STEPS_def)
  have "{''Vibration'', ''Salt Fog''} \<inter> set EXECUTION_SUBSTEPS = {''Vibration'', ''Salt Fog''}"
    by (auto simp: EXECUTION_SUBSTEPS_def)
  then have two: "card ({''Vibration'', ''Salt Fog''} \<inter> set EXECUTION_SUBSTEPS) = 2"
    by simp
  show ?thesis
    using test_execution_scenario [OF mem, of "\<lparr>num_samples = 4, complexity = ''Medium'',
      checkbox = (\<lambda>key. key = ''Test Execution''),
      chosen = (\<lambda>key. {''Vibration'', ''Salt Fog''})\<rparr>" 0 "[]"] mem two
    by simp
qed

text \<open>
  Claim C5. For a ticked step whose \<open>"substeps"\<close> is \<open>None\<close> or the empty list, the
  pass of the loop adds exactly \<open>calculate_hours config num_samples complexity\<close> and
  shows that figure, whatever is chosen in any multiselect (or fails as that call
  fails). For a step with substeps, names chosen that are not among the step's own
  substeps change nothing: the pass gives the same result, failure or hours, as with the
  choice cut down to the step's substeps.
\<close>

theorem substep_selection_ignored:
  "(checkbox ui name \<and> (substeps config = Some None \<or> substeps config = Some (Some [])) \<longrightarrow>
      step_body ui (name, config) (t, caps) =
        (case calculate_hours config (num_samples ui) (complexity ui) of
           Inl e \<Rightarrow> Inl e
         | Inr h \<Rightarrow> Inr (t + h, caps @ [(name, h)]))) \<and>
   (substeps config = Some (Some subs) \<longrightarrow>
      step_body ui (name, config) (t, caps) =
      step_body (ui\<lparr>chosen := \<lambda>key. chosen ui key \<inter> set subs\<rparr>) (name, config) (t, caps))"
proof (intro conjI impI)
  assume "checkbox ui name \<and> (substeps config = Some None \<or> substeps config = Some (Some []))"
  then show "step_body ui (name, config) (t, caps) =
        (case calculate_hours config (num_samples ui) (complexity ui) of
           Inl e \<Rightarrow> Inl e
         | Inr h \<Rightarrow> Inr (t + h, caps @ [(name, h)]))"
    by (simp add: step_body_no_substeps)
next
  assume subs: "substeps config = Some (Some subs)"
  show "step_body ui (name, config) (t, caps) =
      step_body (ui\<lparr>chosen := \<lambda>key. chosen ui key \<inter> set subs\<rparr>) (name, config) (t, caps)"
  proof (cases subs)
    case Nil
    then show ?thesis
      unfolding step_body_def by (simp add: subs split: sum.splits)
  next
    case (Cons x xs)
    have "multiselect (x # xs) (chosen ui (name @ ''_sub'') \<inter> set (x # xs)) =
          multiselect (x # xs) (chosen ui (name @ ''_sub''))"
      by (rule multiselect_restrict)
    then show ?thesis
      unfolding step_body_def by (simp add: subs Cons split: sum.splits)
  qed
qed

text \<open>
  The spec's scenario A ("NDA", five samples, Medium: 1.0 hour) with two substeps of
  another step chosen; and "Pre-ATP" with a name that is not one of its substeps.
\<close>

theorem substep_selection_ignored_witness:
  "step_body
     \<lparr>num_samples = 5, complexity = ''Medium'', checkbox = (\<lambda>key. key = ''NDA''),
      chosen = (\<lambda>key. {''Vibration'', ''Salt Fog''})\<rparr>
     (''NDA'', step_dict 1.0 0.0 DEFAULT_MULTS None) (0, []) = Inr (1.0, [(''NDA'', 1.0)]) \<and>
   step_body
     \<lparr>num_samples = 4, complexity = ''Medium'', checkbox = (\<lambda>key. key = ''Pre-ATP''),
      chosen = (\<lambda>key. {''Vibration'', ''Partial Discharge''})\<rparr>
     (''Pre-ATP'', step_dict 1.0 0.0 COMPLEX_MULTS (Some ATP_SUBSTEPS)) (0, []) =
   step_body
     \<lparr>num_samples = 4, complexity = ''Medium'', checkbox = (\<lambda>key. key = ''Pre-ATP''),
      chosen = (\<lambda>key. {''Partial Discharge''})\<rparr>
     (''Pre-ATP'', step_dict 1.0 0.0 COMPLEX_MULTS (Some ATP_SUBSTEPS)) (0, [])"
proof -
  have a: "step_body
     \<lparr>num_samples = 5, complexity = ''Medium'', checkbox = (\<lambda>key. key = ''NDA''),
      chosen = (\<lambda>key. {''Vibration'', ''Salt Fog''})\<rparr>
     (''NDA'', step_dict 1.0 0.0 DEFAULT_MULTS None) (0, []) = Inr (1.0, [(''NDA'', 1.0)])"
    using substep_selection_ignored [of "\<lparr>num_samples = 5, complexity = ''Medium'', checkbox = (\<lambda>key. key = ''NDA''),
      chosen = (\<lambda>key. {''Vibration'', ''Salt Fog''})\<rparr>" "''NDA''"
      "step_dict 1.0 0.0 DEFAULT_MULTS None" 0 "[]"]
    by (simp add: step_dict_def calculate_hours_def dict_get_def DEFAULT_MULTS_def)
  have r: "(\<lambda>key. {''Vibration'', ''Partial Discharge''} \<inter> set ATP_SUBSTEPS)
         = (\<lambda>key. {''Partial Discharge''})"
    by (auto simp: ATP_SUBSTEPS_def)
  have s: "substeps (step_dict 1.0 0.0 COMPLEX_MULTS (Some ATP_SUBSTEPS)) = Some (Some ATP_SUBSTEPS)"
    by (simp add: step_dict_def)
  have b: "step_body
     \<lparr>num_samples = 4, complexity = ''Medium'', checkbox = (\<lambda>key. key = ''Pre-ATP''),
      chosen = (\<lambda>key. {''Vibration'', ''Partial Discharge''})\<rparr>
     (''Pre-ATP'', step_dict 1.0 0.0 COMPLEX_MULTS (Some ATP_SUBSTEPS)) (0, []) =
   step_body
     \<lparr>num_samples = 4, complexity = ''Medium'', checkbox = (\<lambda>key. key = ''Pre-ATP''),
      chosen = (\<lambda>key. {''Partial Discharge''})\<rparr>
     (''Pre-ATP'', step_dict 1.0 0.0 COMPLEX_MULTS (Some ATP_SUBSTEPS)) (0, [])"
    using substep_selection_ignored [of "\<lparr>num_samples = 4, complexity = ''Medium'',
      checkbox = (\<lambda>key. key = ''Pre-ATP''),
      chosen = (\<lambda>key. {''Vibration'', ''Partial Discharge''})\<rparr>" "''Pre-ATP''"
      "step_dict 1.0 0.0 COMPLEX_MULTS (Some ATP_SUBSTEPS)" 0 "[]" ATP_SUBSTEPS] s
    by (simp add: r)
  from a b show ?thesis ..
qed

text \<open>
  Claim C6. For every sample count, every complexity of the select box and every choice
  in the multiselects, the total is exactly 0 when no step is ticked.
\<close>

theorem empty_selection_total:
  assumes "complexity ui \<in> set COMPLEXITY_OPTIONS" and "\<forall>key. \<not> checkbox ui key"
  shows "total_hours ui = Inr 0"
proof -
  have zero: "step_cost ui item = Inr 0" if "item \<in> set PROJECT_STEPS" for item
    using shipped_step_cost [OF that assms(1)] assms(2) by auto
  have "map (\<lambda>item. projr (step_cost ui item)) PROJECT_STEPS =
        map (\<lambda>item. 0) PROJECT_STEPS"
    by (rule map_cong) (simp_all add: zero)
  then have "sum_list (map (\<lambda>item. projr (step_cost ui item)) PROJECT_STEPS) = 0"
    by (simp only: sum_list_0)
  then show ?thesis
    unfolding total_hours_def by (simp add: total_over_sum zero)
qed

theorem empty_selection_total_witness:
  "''High'' \<in> set COMPLEXITY_OPTIONS \<and>
   total_hours \<lparr>num_samples = 7, complexity = ''High'', checkbox = (\<lambda>key. False),
                chosen = (\<lambda>key. {''Vibration'', ''Visual Inspection''})\<rparr> = Inr 0"
proof -
  have h: "''High'' \<in> set COMPLEXITY_OPTIONS"
    by (simp add: COMPLEXITY_OPTIONS_def)
  show ?thesis
    using empty_selection_total [of "\<lparr>num_samples = 7, complexity = ''High'', checkbox = (\<lambda>key. False),
                chosen = (\<lambda>key. {''Vibration'', ''Visual Inspection''})\<rparr>"] h
    by simp
qed



text \<open>
  Claim C9. Every table of multipliers of the script has an entry for Easy, Medium and
  High: the table under \<open>"multipliers"\<close> of every step of \<open>PROJECT_STEPS\<close> and the
  table under \<open>"complexity_multipliers"\<close> of \<open>SUBSTEP_CONFIG\<close>. So for every step,
  every sample count and every complexity of the select box \<open>calculate_hours\<close> does not
  fail, neither on the step nor on \<open>SUBSTEP_CONFIG\<close>, and the whole loop ends with a
  total.
\<close>

theorem multiplier_lookup_succeeds:
  "(\<forall>(name, config) \<in> set PROJECT_STEPS. \<forall>c \<in> set COMPLEXITY_OPTIONS.
      (\<exists>m. multipliers config = Some m \<and> c \<in> dom m) \<and>
      (\<forall>n. calculate_hours config n c \<noteq> Inl KeyError)) \<and>
   (\<forall>c \<in> set COMPLEXITY_OPTIONS.
      multipliers SUBSTEP_CONFIG = None \<and>
      (\<exists>m. complexity_multipliers SUBSTEP_CONFIG = Some m \<and> c \<in> dom m) \<and>
      (\<forall>n. calculate_hours SUBSTEP_CONFIG n c \<noteq> Inl KeyError)) \<and>
   (\<forall>ui. complexity ui \<in> set COMPLEXITY_OPTIONS \<longrightarrow> total_hours ui \<noteq> Inl KeyError)"
proof (intro conjI)
  show "\<forall>(name, config) \<in> set PROJECT_STEPS. \<forall>c \<in> set COMPLEXITY_OPTIONS.
      (\<exists>m. multipliers config = Some m \<and> c \<in> dom m) \<and>
      (\<forall>n. calculate_hours config n c \<noteq> Inl KeyError)"
    using shipped_multipliers by blast
  show "\<forall>c \<in> set COMPLEXITY_OPTIONS.
      multipliers SUBSTEP_CONFIG = None \<and>
      (\<exists>m. complexity_multipliers SUBSTEP_CONFIG = Some m \<and> c \<in> dom m) \<and>
      (\<forall>n. calculate_hours SUBSTEP_CONFIG n c \<noteq> Inl KeyError)"
    using substep_multipliers by blast
  show "\<forall>ui. complexity ui \<in> set COMPLEXITY_OPTIONS \<longrightarrow> total_hours ui \<noteq> Inl KeyError"
    unfolding total_hours_def by (simp add: total_over_sum shipped_step_ok)
qed

theorem multiplier_lookup_succeeds_witness:
  "(''Test Execution'', step_dict 2.0 0.0 COMPLEX_MULTS (Some EXECUTION_SUBSTEPS))
      \<in> set PROJECT_STEPS \<and>
   ''Medium'' \<in> set COMPLEXITY_OPTIONS \<and>
   calculate_hours (step_dict 2.0 0.0 COMPLEX_MULTS (Some EXECUTION_SUBSTEPS)) 4 ''Medium''
      \<noteq> Inl KeyError \<and>
   calculate_hours SUBSTEP_CONFIG 4 ''Medium'' \<noteq> Inl KeyError \<and>
   total_hours \<lparr>num_samples = 4, complexity = ''Medium'',
                checkbox = (\<lambda>key. key = ''Test Execution''),
                chosen = (\<lambda>key. {''Vibration'', ''Salt Fog''})\<rparr> \<noteq> Inl KeyError"
proof -
  have mem: "(''Test Execution'', step_dict 2.0 0.0 COMPLEX_MULTS (Some EXECUTION_SUBSTEPS))
      \<in> set PROJECT_STEPS"
    by (simp add: PROJECT_STEPS_def)
  have c: "''Medium'' \<in> set COMPLEXITY_OPTIONS"
    by (simp add: COMPLEXITY_OPTIONS_def)
  have c': "complexity \<lparr>num_samples = 4, complexity = ''Medium'',
                checkbox = (\<lambda>key. key = ''Test Execution''),
                chosen = (\<lambda>key. {''Vibration'', ''Salt Fog''})\<rparr> \<in> set COMPLEXITY_OPTIONS"
    by (simp add: COMPLEXITY_OPTIONS_def)
  note th = multiplier_lookup_succeeds
  from th mem c have
    "calculate_hours (step_dict 2.0 0.0 COMPLEX_MULTS (Some EXECUTION_SUBSTEPS)) 4 ''Medium''
      \<noteq> Inl KeyError"
    by blast
  moreover from th c have "calculate_hours SUBSTEP_CONFIG 4 ''Medium'' \<noteq> Inl KeyError"
    by blast
  moreover from th c' have "total_hours \<lparr>num_samples = 4, complexity = ''Medium'',
                checkbox = (\<lambda>key. key = ''Test Execution''),
                chosen = (\<lambda>key. {''Vibration'', ''Salt Fog''})\<rparr> \<noteq> Inl KeyError"
    by blast
  ultimately show ?thesis
    using mem c by blast
qed

text \<open>
  Claim C10. With the tables of the script, a sample count of at least 1 and a complexity
  of the select box: when a second view has the same sample count and complexity, ticks
  every step the first one ticks and chooses every substep the first one chooses, both
  totals exist, the total of the first view is not negative and the total of the second
  view is at least that of the first.
\<close>

theorem total_monotone_in_selection:
  assumes c: "complexity ui \<in> set COMPLEXITY_OPTIONS" and n: "1 \<le> num_samples ui"
    and same: "num_samples ui' = num_samples ui" "complexity ui' = complexity ui"
    and cb: "\<forall>k. checkbox ui k \<longrightarrow> checkbox ui' k"
    and ch: "\<forall>k. chosen ui k \<subseteq> chosen ui' k"
  shows "\<exists>t t'. total_hours ui = Inr t \<and> total_hours ui' = Inr t' \<and> 0 \<le> t \<and> t \<le> t'"
proof -
  have c': "complexity ui' \<in> set COMPLEXITY_OPTIONS"
    using c same by simp
  have "sum_list (map (\<lambda>item. projr (step_cost ui item)) PROJECT_STEPS)
      \<le> sum_list (map (\<lambda>item. projr (step_cost ui' item)) PROJECT_STEPS)"
    by (rule sum_list_mono) (rule step_cost_mono [OF _ c n same cb ch])
  moreover have "0 \<le> sum_list (map (\<lambda>item. projr (step_cost ui item)) PROJECT_STEPS)"
    by (rule sum_list_nonneg) (auto simp: step_cost_nonneg [OF _ c n])
  ultimately show ?thesis
    unfolding total_hours_def
    by (simp add: total_over_sum shipped_step_ok [OF _ c] shipped_step_ok [OF _ c'])
qed

theorem total_monotone_in_selection_witness:
  "''Medium'' \<in> set COMPLEXITY_OPTIONS \<and> (1::int) \<le> 4 \<and>
   (\<exists>t t'.
      total_hours \<lparr>num_samples = 4, complexity = ''Medium'',
                   checkbox = (\<lambda>key. key = ''Test Execution''),
                   chosen = (\<lambda>key. {''Vibration''})\<rparr> = Inr t \<and>
      total_hours \<lparr>num_samples = 4, complexity = ''Medium'',
                   checkbox = (\<lambda>key. key = ''Test Execution'' \<or> key = ''NDA''),
                   chosen = (\<lambda>key. {''Vibration'', ''Salt Fog''})\<rparr> = Inr t' \<and>
      0 \<le> t \<and> t \<le> t')"
proof -
  have c: "''Medium'' \<in> set COMPLEXITY_OPTIONS"
    by (simp add: COMPLEXITY_OPTIONS_def)
  show ?thesis
    using total_monotone_in_selection [of "\<lparr>num_samples = 4, complexity = ''Medium'',
                   checkbox = (\<lambda>key. key = ''Test Execution''),
                   chosen = (\<lambda>key. {''Vibration''})\<rparr>"
                 "\<lparr>num_samples = 4, complexity = ''Medium'',
                   checkbox = (\<lambda>key. key = ''Test Execution'' \<or> key = ''NDA''),
                   chosen = (\<lambda>key. {''Vibration'', ''Salt Fog''})\<rparr>"] c
    by simp
qed

end
